theory Spec2Isabelle
  imports Complex_Main
begin

section \<open>The recency list (src/src/LinkedList.ts)\<close>

text \<open>
  Objects are modelled by their addresses. The items stored in a \<open>LinkedList\<close> are objects
  (\<open>Item extends object\<close>), and so are the \<open>LinkedListItem\<close> cells the list allocates; the
  \<open>WeakMap\<close> \<open>_lookup\<close> is keyed by object identity, which is equality of addresses here.
  The cells live in a store \<open>nodes\<close>, because a cell that has left \<open>_lookup\<close> can still be
  referenced by the \<open>closer\<close> and \<open>further\<close> fields of other cells and by \<open>_head\<close> and
  \<open>_tail\<close>. The field \<open>parent\<close> of a cell is written once and never read; it is left out.
  The private fields \<open>_lookup\<close>, \<open>_length\<close>, \<open>_head\<close>, \<open>_tail\<close> are named with the
  prefix \<open>priv\<close>.
\<close>

type_synonym addr = nat

record LinkedListItem =
  item :: addr
  closer :: "addr option"
  further :: "addr option"

record LinkedList =
  nodes :: "addr \<Rightarrow> LinkedListItem"
  next_node :: addr
  priv_lookup :: "addr \<rightharpoonup> addr"
  priv_length :: int
  priv_head :: "addr option"
  priv_tail :: "addr option"

definition empty_LinkedList :: LinkedList where
  "empty_LinkedList =
     \<lparr>nodes = (\<lambda>_. \<lparr>item = 0, closer = None, further = None\<rparr>), next_node = 0,
      priv_lookup = Map.empty, priv_length = 0, priv_head = None, priv_tail = None\<rparr>"

definition set_closer :: "addr \<Rightarrow> addr option \<Rightarrow> LinkedList \<Rightarrow> LinkedList" where
  "set_closer n v l = l\<lparr>nodes := (nodes l)(n := (nodes l n)\<lparr>closer := v\<rparr>)\<rparr>"

definition set_further :: "addr \<Rightarrow> addr option \<Rightarrow> LinkedList \<Rightarrow> LinkedList" where
  "set_further n v l = l\<lparr>nodes := (nodes l)(n := (nodes l n)\<lparr>further := v\<rparr>)\<rparr>"

text \<open>\<open>_remove(linkedListItem)\<close>: the cell is given by its address.\<close>

definition remove_node :: "addr \<Rightarrow> LinkedList \<Rightarrow> LinkedList" where
  "remove_node n l =
     (let c = closer (nodes l n);
          f = further (nodes l n);
          l1 = (case c of Some cn \<Rightarrow> set_further cn f l | None \<Rightarrow> l\<lparr>priv_head := f\<rparr>);
          l2 = (case f of Some fn \<Rightarrow> set_closer fn c l1 | None \<Rightarrow> l1\<lparr>priv_tail := c\<rparr>);
          l3 = set_closer n None (set_further n None l2)
      in l3\<lparr>priv_length := priv_length l3 - 1\<rparr>)"

text \<open>
  \<open>insertAtHead(item)\<close>. In the branch of an item that is already in \<open>_lookup\<close> the cell comes
  back from \<open>_remove\<close> with both links cleared, and the source assigns neither of them before
  the cell becomes the head; only a newly allocated cell gets \<open>further: head\<close>.
\<close>

definition insertAtHead :: "addr \<Rightarrow> LinkedList \<Rightarrow> LinkedList" where
  "insertAtHead x l =
     (let (n, l1) =
            (case priv_lookup l x of
               Some n \<Rightarrow> (n, remove_node n l)
             | None \<Rightarrow>
                 (next_node l,
                  l\<lparr>nodes := (nodes l)(next_node l :=
                                 \<lparr>item = x, closer = None, further = priv_head l\<rparr>),
                    next_node := Suc (next_node l),
                    priv_lookup := (priv_lookup l)(x \<mapsto> next_node l)\<rparr>));
          l2 = (case priv_head l1 of
                  Some h \<Rightarrow> set_closer h (Some n) l1
                | None \<Rightarrow> l1\<lparr>priv_tail := Some n\<rparr>)
      in l2\<lparr>priv_head := Some n, priv_length := priv_length l2 + 1\<rparr>)"

definition remove :: "addr \<Rightarrow> LinkedList \<Rightarrow> LinkedList" where
  "remove x l =
     (case priv_lookup l x of
        None \<Rightarrow> l
      | Some n \<Rightarrow> (remove_node n l)\<lparr>priv_lookup := (priv_lookup l)(x := None)\<rparr>)"

text \<open>The getters \<open>length\<close> and \<open>tail\<close> (\<open>this._tail && this._tail.item\<close>).\<close>

definition get_length :: "LinkedList \<Rightarrow> int" where
  "get_length l = priv_length l"

definition get_tail :: "LinkedList \<Rightarrow> addr option" where
  "get_tail l = (case priv_tail l of None \<Rightarrow> None | Some n \<Rightarrow> Some (item (nodes l n)))"

text \<open>
  Two ways of reading the chain, for stating what a consistent doubly-linked list is:
  from the head along \<open>further\<close> and from the tail along \<open>closer\<close>, each for at most
  \<open>k\<close> cells.
\<close>

fun walk_further :: "nat \<Rightarrow> LinkedList \<Rightarrow> addr option \<Rightarrow> addr list" where
  "walk_further 0 l p = []"
| "walk_further (Suc k) l None = []"
| "walk_further (Suc k) l (Some n) = item (nodes l n) # walk_further k l (further (nodes l n))"

fun walk_closer :: "nat \<Rightarrow> LinkedList \<Rightarrow> addr option \<Rightarrow> addr list" where
  "walk_closer 0 l p = []"
| "walk_closer (Suc k) l None = []"
| "walk_closer (Suc k) l (Some n) = item (nodes l n) # walk_closer k l (closer (nodes l n))"

definition from_head :: "LinkedList \<Rightarrow> addr list" where
  "from_head l = walk_further (nat (priv_length l)) l (priv_head l)"

definition from_tail :: "LinkedList \<Rightarrow> addr list" where
  "from_tail l = walk_closer (nat (priv_length l)) l (priv_tail l)"




section \<open>The cache (src/src/Cache.ts)\<close>

text \<open>
  \<open>ParamState = string | number | boolean | null\<close>. A number is a double: \<open>NaN\<close>, an
  infinity or a finite value; the two zeros are one value here, as \<open>===\<close> does not tell them
  apart. \<open>compareCallState\<close> is \<open>===\<close>, under which \<open>NaN\<close> equals nothing.
\<close>

datatype number = NaN | PosInfinity | NegInfinity | Finite rat

datatype ParamState = PString string | PNumber number | PBoolean bool | PNull

definition compareCallState :: "ParamState \<Rightarrow> ParamState \<Rightarrow> bool" where
  "compareCallState a b = (a = b \<and> a \<noteq> PNumber NaN)"

text \<open>
  A promise is modelled by a handle. \<open>cache = None\<close> is the \<open>null as any\<close> a new entry
  starts with.
\<close>

type_synonym promise = nat

record EntryState =
  paramHash :: string
  paramState :: ParamState
  cache :: "promise option"
  isBeingUsed :: bool
  isResolved :: bool

text \<open>
  \<open>maxEntries\<close> is a \<open>number\<close> in the source; the model takes the integers (the comparison
  \<open>length > maxEntries\<close> is the only use).
\<close>

record ('p, 'r) CacheSettings =
  paramHasher :: "'p \<Rightarrow> string"
  paramState_of :: "'p \<Rightarrow> ParamState"
  maxEntries :: int
  shouldCache :: "('r \<Rightarrow> 'p \<Rightarrow> bool) option"

text \<open>
  The wrapped function \<open>fn\<close> is opaque. Its synchronous phase either throws or returns a
  promise; \<open>fn param k\<close> is that outcome for the invocation that is preceded by \<open>k\<close> earlier
  invocations. A call of the cached function made by \<open>fn\<close> itself, during its synchronous
  phase, is not run inside \<open>withCache\<close>; the state such a nested call starts from is the one
  in which \<open>fn\<close> is invoked, with the entry in use. How the promise of \<open>fn\<close> settles is an
  event that arrives later (\<open>on_fulfilled\<close>, \<open>on_rejected\<close>).
\<close>

datatype 'e fn_outcome = Throws 'e | ReturnsPromise

datatype 'e error = ReentrantRecursion | Thrown 'e

datatype 'r fulfilment = Value 'r | Undefined

text \<open>
  The state closed over by the function \<open>withCache\<close> returns: the entry objects (a store),
  the two containers, the \<open>then\<close>/\<open>catch\<close> closures of promises that are not settled yet
  (each holds its \<open>entryState\<close> and \<open>param\<close>), and the log of invocations of \<open>fn\<close>.
\<close>

record 'p Cache =
  entries :: "addr \<Rightarrow> EntryState"
  next_entry :: addr
  entriesByHash :: "string \<rightharpoonup> addr"
  entriesByAccess :: LinkedList
  next_promise :: promise
  callbacks :: "promise \<rightharpoonup> addr \<times> 'p"
  invocations :: "'p list"

definition empty_Cache :: "'p Cache" where
  "empty_Cache =
     \<lparr>entries = (\<lambda>_. \<lparr>paramHash = [], paramState = PNull, cache = None,
                       isBeingUsed = False, isResolved = False\<rparr>),
      next_entry = 0, entriesByHash = Map.empty, entriesByAccess = empty_LinkedList,
      next_promise = 0, callbacks = Map.empty, invocations = []\<rparr>"

definition upd_entry :: "addr \<Rightarrow> (EntryState \<Rightarrow> EntryState) \<Rightarrow> 'p Cache \<Rightarrow> 'p Cache" where
  "upd_entry e f s = s\<lparr>entries := (entries s)(e := f (entries s e))\<rparr>"

definition detach :: "addr \<Rightarrow> 'p Cache \<Rightarrow> 'p Cache" where
  "detach e s =
     s\<lparr>entriesByAccess := remove e (entriesByAccess s),
       entriesByHash := (entriesByHash s)(paramHash (entries s e) := None)\<rparr>"

text \<open>
  \<open>invoke(entryState, param, paramHash)\<close>: \<open>Some err\<close> is the error rethrown by the
  \<open>catch\<close> block. The promise stored in \<open>entryState.cache\<close> is the one made by
  \<open>.then(...).catch(...)\<close>, always a new object.
\<close>

definition invoke ::
  "('p \<Rightarrow> nat \<Rightarrow> 'e fn_outcome) \<Rightarrow> addr \<Rightarrow> 'p \<Rightarrow> string \<Rightarrow> 'p Cache \<Rightarrow> 'e option \<times> 'p Cache" where
  "invoke fn e param h s =
     (let s1 = upd_entry e (\<lambda>x. x\<lparr>isBeingUsed := True, isResolved := False\<rparr>) s;
          s2 = s1\<lparr>invocations := invocations s1 @ [param]\<rparr>
      in case fn param (length (invocations s1)) of
           Throws err \<Rightarrow> (Some err, detach e s2)
         | ReturnsPromise \<Rightarrow>
             (None,
              upd_entry e (\<lambda>x. x\<lparr>cache := Some (next_promise s2), isBeingUsed := False\<rparr>)
                (s2\<lparr>next_promise := Suc (next_promise s2),
                    callbacks := (callbacks s2)(next_promise s2 \<mapsto> (e, param))\<rparr>)))"

text \<open>The eviction of lines 128 to 134.\<close>

definition evict :: "('p, 'r) CacheSettings \<Rightarrow> 'p Cache \<Rightarrow> 'p Cache" where
  "evict cs s =
     (if get_length (entriesByAccess s) > maxEntries cs then
        (case get_tail (entriesByAccess s) of
           Some t \<Rightarrow>
             s\<lparr>entriesByAccess := remove t (entriesByAccess s),
               entriesByHash := (entriesByHash s)(paramHash (entries s t) := None)\<rparr>
         | None \<Rightarrow> s)
      else s)"

text \<open>Lines 118 to 126: the new entry, linked at the head and entered in the table.\<close>

definition create_entry :: "string \<Rightarrow> ParamState \<Rightarrow> 'p Cache \<Rightarrow> 'p Cache" where
  "create_entry h callState s =
     (let e = next_entry s;
          s1 = s\<lparr>entries := (entries s)(e :=
                    \<lparr>paramHash = h, paramState = callState, cache = None,
                     isBeingUsed = True, isResolved = False\<rparr>),
                 next_entry := Suc e\<rparr>;
          s2 = s1\<lparr>entriesByAccess := insertAtHead e (entriesByAccess s1)\<rparr>
      in s2\<lparr>entriesByHash := (entriesByHash s2)(h \<mapsto> e)\<rparr>)"

text \<open>
  The function returned by \<open>withCache(fn, cacheSettings)\<close>, applied to \<open>param\<close> in state
  \<open>s\<close>. \<open>Inl\<close> is a synchronous throw, \<open>Inr\<close> the returned \<open>entryState.cache\<close>. The
  \<open>console.error\<close> of the recursion branch is not part of the state.
\<close>

definition withCache ::
  "('p \<Rightarrow> nat \<Rightarrow> 'e fn_outcome) \<Rightarrow> ('p, 'r) CacheSettings \<Rightarrow> 'p \<Rightarrow> 'p Cache
     \<Rightarrow> ('e error + promise option) \<times> 'p Cache" where
  "withCache fn cs param s =
     (let h = paramHasher cs param;
          callState = paramState_of cs param
      in case entriesByHash s h of
           Some e \<Rightarrow>
             if isBeingUsed (entries s e) then (Inl ReentrantRecursion, s)
             else if \<not> (compareCallState callState (paramState (entries s e))
                         \<and> isResolved (entries s e)) then
               (case invoke fn e param h (upd_entry e (\<lambda>x. x\<lparr>paramState := callState\<rparr>) s) of
                  (Some err, s') \<Rightarrow> (Inl (Thrown err), s')
                | (None, s') \<Rightarrow>
                    (Inr (cache (entries s' e)),
                     s'\<lparr>entriesByAccess := insertAtHead e (entriesByAccess s')\<rparr>))
             else
               (Inr (cache (entries s e)),
                s\<lparr>entriesByAccess := insertAtHead e (entriesByAccess s)\<rparr>)
         | None \<Rightarrow>
             (case invoke fn (next_entry s) param h (create_entry h callState s) of
                (Some err, s') \<Rightarrow> (Inl (Thrown err), s')
              | (None, s') \<Rightarrow>
                  (Inr (cache (entries (evict cs s') (next_entry s))), evict cs s')))"

text \<open>
  The \<open>then\<close> and the \<open>catch\<close> callback of the promise \<open>p\<close>, run when the promise \<open>fn\<close>
  returned is fulfilled with \<open>result\<close> or rejected with \<open>err\<close>. The first component is how
  \<open>p\<close> itself settles: fulfilled with a value or with \<open>undefined\<close> after \<open>then\<close>, rejected
  with the rethrown error after \<open>catch\<close>. It is \<open>None\<close> when \<open>p\<close> has no pending closure: a
  promise settles once. \<open>shouldCache\<close> is taken not to throw.
\<close>

definition on_fulfilled ::
  "('p, 'r) CacheSettings \<Rightarrow> promise \<Rightarrow> 'r \<Rightarrow> 'p Cache \<Rightarrow> 'r fulfilment option \<times> 'p Cache" where
  "on_fulfilled cs p result s =
     (case callbacks s p of
        None \<Rightarrow> (None, s)
      | Some (e, param) \<Rightarrow>
          (let s0 = s\<lparr>callbacks := (callbacks s)(p := None)\<rparr>
           in if cache (entries s0 e) = Some p then
                (let s1 = upd_entry e (\<lambda>x. x\<lparr>isResolved := True\<rparr>) s0
                 in (Some (Value result),
                     (case shouldCache cs of
                        Some sc \<Rightarrow> if \<not> sc result param then detach e s1 else s1
                      | None \<Rightarrow> s1)))
              else (Some Undefined, s0)))"

definition on_rejected :: "promise \<Rightarrow> 'e \<Rightarrow> 'p Cache \<Rightarrow> 'e option \<times> 'p Cache" where
  "on_rejected p err s =
     (case callbacks s p of
        None \<Rightarrow> (None, s)
      | Some (e, param) \<Rightarrow>
          (let s0 = s\<lparr>callbacks := (callbacks s)(p := None)\<rparr>
           in (Some err, if cache (entries s0 e) = Some p then detach e s0 else s0)))"

text \<open>A run of the cache: calls and settlements, one after the other.\<close>

datatype ('p, 'r, 'e) event = Call 'p | Resolve promise 'r | Reject promise 'e

fun step ::
  "('p \<Rightarrow> nat \<Rightarrow> 'e fn_outcome) \<Rightarrow> ('p, 'r) CacheSettings \<Rightarrow> 'p Cache \<Rightarrow> ('p, 'r, 'e) event
     \<Rightarrow> 'p Cache" where
  "step fn cs s (Call param) = snd (withCache fn cs param s)"
| "step fn cs s (Resolve p result) = snd (on_fulfilled cs p result s)"
| "step fn cs s (Reject p err) = snd (on_rejected p err s)"

definition run ::
  "('p \<Rightarrow> nat \<Rightarrow> 'e fn_outcome) \<Rightarrow> ('p, 'r) CacheSettings \<Rightarrow> ('p, 'r, 'e) event list \<Rightarrow> 'p Cache" where
  "run fn cs evs = foldl (step fn cs) empty_Cache evs"

section \<open>The variant without resolution tracking (src/unnamed/part_000)\<close>

text \<open>
  The second source file that defines \<open>withCache\<close>: the entries have no \<open>isResolved\<close>,
  the settings no \<open>shouldCache\<close>, and \<open>entryState.cache\<close> is the promise \<open>fn\<close> returned,
  with no callback attached. Its names carry a \<open>0\<close>. Here \<open>fn param k\<close> is \<open>Inl err\<close> for a
  synchronous throw and \<open>Inr p\<close> for the returned promise.
\<close>

record EntryState0 =
  paramHash0 :: string
  paramState0 :: ParamState
  cache0 :: "promise option"
  isBeingUsed0 :: bool

record 'p CacheSettings0 =
  paramHasher0 :: "'p \<Rightarrow> string"
  paramState_of0 :: "'p \<Rightarrow> ParamState"
  maxEntries0 :: int

record 'p Cache0 =
  entries0 :: "addr \<Rightarrow> EntryState0"
  next_entry0 :: addr
  entriesByHash0 :: "string \<rightharpoonup> addr"
  entriesByAccess0 :: LinkedList
  invocations0 :: "'p list"

definition empty_Cache0 :: "'p Cache0" where
  "empty_Cache0 =
     \<lparr>entries0 = (\<lambda>_. \<lparr>paramHash0 = [], paramState0 = PNull, cache0 = None,
                        isBeingUsed0 = False\<rparr>),
      next_entry0 = 0, entriesByHash0 = Map.empty, entriesByAccess0 = empty_LinkedList,
      invocations0 = []\<rparr>"

definition upd_entry0 :: "addr \<Rightarrow> (EntryState0 \<Rightarrow> EntryState0) \<Rightarrow> 'p Cache0 \<Rightarrow> 'p Cache0" where
  "upd_entry0 e f s = s\<lparr>entries0 := (entries0 s)(e := f (entries0 s e))\<rparr>"

text \<open>The two \<open>try\<close> blocks are the same statement; \<open>Some err\<close> is the rethrown error.\<close>

definition try_fn0 ::
  "('p \<Rightarrow> nat \<Rightarrow> 'e + promise) \<Rightarrow> addr \<Rightarrow> 'p \<Rightarrow> string \<Rightarrow> 'p Cache0 \<Rightarrow> 'e option \<times> 'p Cache0" where
  "try_fn0 fn e param h s =
     (let s1 = s\<lparr>invocations0 := invocations0 s @ [param]\<rparr>
      in case fn param (length (invocations0 s)) of
           Inl err \<Rightarrow>
             (Some err,
              s1\<lparr>entriesByAccess0 := remove e (entriesByAccess0 s1),
                 entriesByHash0 := (entriesByHash0 s1)(h := None)\<rparr>)
         | Inr p \<Rightarrow> (None, upd_entry0 e (\<lambda>x. x\<lparr>cache0 := Some p\<rparr>) s1))"

definition evict0 :: "'p CacheSettings0 \<Rightarrow> 'p Cache0 \<Rightarrow> 'p Cache0" where
  "evict0 cs s =
     (if get_length (entriesByAccess0 s) > maxEntries0 cs then
        (case get_tail (entriesByAccess0 s) of
           Some t \<Rightarrow>
             s\<lparr>entriesByAccess0 := remove t (entriesByAccess0 s),
               entriesByHash0 := (entriesByHash0 s)(paramHash0 (entries0 s t) := None)\<rparr>
         | None \<Rightarrow> s)
      else s)"

definition create_entry0 :: "string \<Rightarrow> ParamState \<Rightarrow> 'p Cache0 \<Rightarrow> 'p Cache0" where
  "create_entry0 h callState s =
     (let e = next_entry0 s;
          s1 = s\<lparr>entries0 := (entries0 s)(e :=
                    \<lparr>paramHash0 = h, paramState0 = callState, cache0 = None,
                     isBeingUsed0 = True\<rparr>),
                 next_entry0 := Suc e\<rparr>;
          s2 = s1\<lparr>entriesByAccess0 := insertAtHead e (entriesByAccess0 s1)\<rparr>
      in s2\<lparr>entriesByHash0 := (entriesByHash0 s2)(h \<mapsto> e)\<rparr>)"

definition withCache0 ::
  "('p \<Rightarrow> nat \<Rightarrow> 'e + promise) \<Rightarrow> 'p CacheSettings0 \<Rightarrow> 'p \<Rightarrow> 'p Cache0
     \<Rightarrow> ('e error + promise option) \<times> 'p Cache0" where
  "withCache0 fn cs param s =
     (let h = paramHasher0 cs param;
          callState = paramState_of0 cs param
      in case entriesByHash0 s h of
           Some e \<Rightarrow>
             if isBeingUsed0 (entries0 s e) then (Inl ReentrantRecursion, s)
             else if \<not> compareCallState callState (paramState0 (entries0 s e)) then
               (case try_fn0 fn e param h (upd_entry0 e (\<lambda>x. x\<lparr>isBeingUsed0 := True\<rparr>) s) of
                  (Some err, s') \<Rightarrow> (Inl (Thrown err), s')
                | (None, s') \<Rightarrow>
                    (let s2 = upd_entry0 e
                                (\<lambda>x. x\<lparr>paramState0 := callState, isBeingUsed0 := False\<rparr>) s'
                     in (Inr (cache0 (entries0 s2 e)),
                         s2\<lparr>entriesByAccess0 := insertAtHead e (entriesByAccess0 s2)\<rparr>)))
             else
               (Inr (cache0 (entries0 s e)),
                s\<lparr>entriesByAccess0 := insertAtHead e (entriesByAccess0 s)\<rparr>)
         | None \<Rightarrow>
             (case try_fn0 fn (next_entry0 s) param h (create_entry0 h callState s) of
                (Some err, s') \<Rightarrow> (Inl (Thrown err), s')
              | (None, s') \<Rightarrow>
                  (let s2 = evict0 cs (upd_entry0 (next_entry0 s)
                                         (\<lambda>x. x\<lparr>isBeingUsed0 := False\<rparr>) s')
                   in (Inr (cache0 (entries0 s2 (next_entry0 s))), s2))))"

section \<open>Concrete settings and runs\<close>

text \<open>
  Parameters are strings that are their own fingerprint, the state of every parameter is
  \<open>null\<close>, there is no \<open>shouldCache\<close>, and the wrapped function always returns a promise.
\<close>

definition settings_max :: "int \<Rightarrow> (string, nat) CacheSettings" where
  "settings_max m =
     \<lparr>paramHasher = (\<lambda>p. p), paramState_of = (\<lambda>p. PNull), maxEntries = m, shouldCache = None\<rparr>"

text \<open>The same with a \<open>shouldCache\<close> that is always false.\<close>

definition never_cache :: "int \<Rightarrow> (string, nat) CacheSettings" where
  "never_cache m =
     \<lparr>paramHasher = (\<lambda>p. p), paramState_of = (\<lambda>p. PNull), maxEntries = m,
      shouldCache = Some (\<lambda>r p. False)\<rparr>"

definition settings0_max :: "int \<Rightarrow> string CacheSettings0" where
  "settings0_max m = \<lparr>paramHasher0 = (\<lambda>p. p), paramState_of0 = (\<lambda>p. PNull), maxEntries0 = m\<rparr>"

definition returns :: "'p \<Rightarrow> nat \<Rightarrow> unit fn_outcome" where
  "returns p k = ReturnsPromise"

definition returns0 :: "'p \<Rightarrow> nat \<Rightarrow> unit + promise" where
  "returns0 p k = Inr k"

text \<open>
  Parameters that are a key and a version: the key is the fingerprint, the version the state.
\<close>

definition versioned :: "int \<Rightarrow> (string \<times> nat, nat) CacheSettings" where
  "versioned m =
     \<lparr>paramHasher = fst, paramState_of = (\<lambda>p. PNumber (Finite (of_nat (snd p)))),
      maxEntries = m, shouldCache = None\<rparr>"

definition versioned0 :: "int \<Rightarrow> (string \<times> nat) CacheSettings0" where
  "versioned0 m =
     \<lparr>paramHasher0 = fst, paramState_of0 = (\<lambda>p. PNumber (Finite (of_nat (snd p)))),
      maxEntries0 = m\<rparr>"

definition calls :: "int \<Rightarrow> string list \<Rightarrow> string Cache" where
  "calls m ps = run returns (settings_max m) (map Call ps)"

definition uncached_calls :: "int \<Rightarrow> string list \<Rightarrow> string Cache" where
  "uncached_calls m ps = run returns (never_cache m) (map Call ps)"


section \<open>Basic facts\<close>

lemmas list_defs =
  insertAtHead_def remove_def remove_node_def set_closer_def set_further_def
  get_length_def get_tail_def empty_LinkedList_def from_head_def from_tail_def

lemmas cache_defs =
  withCache_def invoke_def create_entry_def evict_def upd_entry_def detach_def
  on_fulfilled_def on_rejected_def empty_Cache_def run_def calls_def uncached_calls_def
  settings_max_def never_cache_def versioned_def returns_def compareCallState_def

lemmas cache0_defs =
  withCache0_def try_fn0_def create_entry0_def evict0_def upd_entry0_def empty_Cache0_def
  settings0_max_def versioned0_def returns0_def

lemma remove_lookup: "priv_lookup (remove x l) x = None"
  by (simp add: remove_def split: option.split)

lemma detach_fields:
  "entriesByHash (detach e s) (paramHash (entries s e)) = None"
  "priv_lookup (entriesByAccess (detach e s)) e = None"
  "entries (detach e s) = entries s"
  "invocations (detach e s) = invocations s"
  by (simp_all add: detach_def remove_lookup)

lemma invoke_invocations:
  "invocations (snd (invoke fn e param h s)) = invocations s @ [param]"
  by (simp add: invoke_def upd_entry_def detach_def Let_def split: fn_outcome.split)

lemma evict_invocations: "invocations (evict cs s) = invocations s"
  by (simp add: evict_def split: option.split)


lemma create_entry_invocations: "invocations (create_entry h st s) = invocations s"
  by (simp add: create_entry_def Let_def)

text \<open>A call that finds no entry for its fingerprint invokes the wrapped function.\<close>

lemma fresh_call_invokes:
  "entriesByHash s (paramHasher cs param) = None \<Longrightarrow>
   invocations (snd (withCache fn cs param s)) = invocations s @ [param]"
  using invoke_invocations [of fn "next_entry s" param "paramHasher cs param"
          "create_entry (paramHasher cs param) (paramState_of cs param) s"]
  by (auto simp: withCache_def Let_def evict_invocations create_entry_invocations
      split: prod.split option.split)

section \<open>The reentrancy guard\<close>

text \<open>
  C5: a call whose fingerprint is in the table with an entry that has \<open>isBeingUsed\<close> set
  throws the recursion error at once: the wrapped function is not invoked and the state, that
  is the table, the list, every entry and the log of invocations, is the one before the call.
  Both source files that define \<open>withCache\<close> do so.
\<close>

theorem reentrant_call_throws:
  "(entriesByHash s (paramHasher cs param) = Some e \<longrightarrow> isBeingUsed (entries s e) \<longrightarrow>
      withCache fn cs param s = (Inl ReentrantRecursion, s)) \<and>
   (entriesByHash0 s0 (paramHasher0 cs0 param0) = Some e0 \<longrightarrow> isBeingUsed0 (entries0 s0 e0) \<longrightarrow>
      withCache0 fn0 cs0 param0 s0 = (Inl ReentrantRecursion, s0))"
  by (simp add: withCache_def withCache0_def)

text \<open>
  The state in which the wrapped function runs during the first call for \<open>A\<close>: the entry
  exists and is in use.
\<close>

theorem reentrant_call_throws_witness:
  "entriesByHash (create_entry ''A'' PNull (empty_Cache :: string Cache))
     (paramHasher (settings_max 2) ''A'') = Some 0 \<and>
   isBeingUsed (entries (create_entry ''A'' PNull (empty_Cache :: string Cache)) 0) \<and>
   withCache returns (settings_max 2) ''A'' (create_entry ''A'' PNull empty_Cache)
     = (Inl ReentrantRecursion, create_entry ''A'' PNull empty_Cache) \<and>
   entriesByHash0 (create_entry0 ''A'' PNull (empty_Cache0 :: string Cache0))
     (paramHasher0 (settings0_max 2) ''A'') = Some 0 \<and>
   isBeingUsed0 (entries0 (create_entry0 ''A'' PNull (empty_Cache0 :: string Cache0)) 0) \<and>
   withCache0 returns0 (settings0_max 2) ''A'' (create_entry0 ''A'' PNull empty_Cache0)
     = (Inl ReentrantRecursion, create_entry0 ''A'' PNull empty_Cache0)"
  using reentrant_call_throws
          [of "create_entry ''A'' PNull (empty_Cache :: string Cache)" "settings_max 2" "''A''" 0
              returns "create_entry0 ''A'' PNull (empty_Cache0 :: string Cache0)"
              "settings0_max 2" "''A''" 0 returns0]
  by (simp add: create_entry_def create_entry0_def empty_Cache_def empty_Cache0_def
      settings_max_def settings0_max_def Let_def)

section \<open>Reuse and invalidation\<close>

text \<open>
  C3 as stated, a pending handle reused without invoking, fails in src/src/Cache.ts, where an
  entry is reused only when its state is unchanged and it is marked
  resolved (\<open>isCacheUseable\<close>). With \<open>maxEntries = 2\<close>, the first call for \<open>A\<close> returns
  promise \<open>0\<close>; the entry is then in the table, not in use, and its state equals the state
  of the second call. Nothing has settled. The second call for \<open>A\<close> invokes the wrapped
  function a second time and returns another promise.
\<close>

theorem pending_entry_is_reinvoked:
  "fst (withCache returns (settings_max 2) ''A'' empty_Cache) = Inr (Some 0) \<and>
   entriesByHash (calls 2 [''A'']) ''A'' = Some 0 \<and>
   \<not> isBeingUsed (entries (calls 2 [''A'']) 0) \<and>
   compareCallState (paramState_of (settings_max 2) ''A'') (paramState (entries (calls 2 [''A'']) 0)) \<and>
   fst (withCache returns (settings_max 2) ''A'' (calls 2 [''A''])) = Inr (Some 1) \<and>
   invocations (snd (withCache returns (settings_max 2) ''A'' (calls 2 [''A'']))) = [''A'', ''A'']"
  by (simp add: cache_defs list_defs Let_def)

text \<open>
  A call that returns a handle leaves it in the entry it keeps under the fingerprint, and
  leaves that entry not in use; a fulfilment writes no \<open>cache\<close> field and adds nothing to
  the table.
\<close>

lemma call_stores_returned_handle:
  "fst (withCache fn cs param s) = Inr h \<Longrightarrow>
   entriesByHash (snd (withCache fn cs param s)) (paramHasher cs param) = Some e \<Longrightarrow>
   cache (entries (snd (withCache fn cs param s)) e) = h \<and>
   \<not> isBeingUsed (entries (snd (withCache fn cs param s)) e)"
  by (auto simp: withCache_def invoke_def create_entry_def evict_def upd_entry_def detach_def Let_def
      split: option.splits if_splits fn_outcome.splits prod.splits)

lemma on_fulfilled_keeps:
  "cache (entries (snd (on_fulfilled cs p r s)) e) = cache (entries s e)"
  "isBeingUsed (entries (snd (on_fulfilled cs p r s)) e) = isBeingUsed (entries s e)"
  "entriesByHash (snd (on_fulfilled cs p r s)) k = Some e \<Longrightarrow> entriesByHash s k = Some e"
  by (auto simp: on_fulfilled_def upd_entry_def detach_def Let_def split: option.splits if_splits)

lemma call0_stores_returned_handle:
  "fst (withCache0 fn cs param s) = Inr h \<Longrightarrow>
   entriesByHash0 (snd (withCache0 fn cs param s)) (paramHasher0 cs param) = Some e \<Longrightarrow>
   cache0 (entries0 (snd (withCache0 fn cs param s)) e) = h \<and>
   \<not> isBeingUsed0 (entries0 (snd (withCache0 fn cs param s)) e)"
  by (auto simp: withCache0_def try_fn0_def create_entry0_def evict0_def upd_entry0_def Let_def
      split: option.splits if_splits sum.splits prod.splits)

text \<open>
  C3, as the code has it. In src/src/Cache.ts a call whose fingerprint is in the table with
  an entry that is not in use, whose state equals the stored state under \<open>===\<close> and whose
  entry is marked resolved returns the handle stored in the entry and does not invoke the
  wrapped function; no entry and no table binding changes. So when a call has returned the
  handle \<open>h\<close>, a fulfilment has followed, and the fingerprint still has an entry, resolved and
  with an equal state, the next call with that fingerprint returns \<open>h\<close> again and invokes
  nothing. In src/unnamed/part_000, which has no \<open>isResolved\<close>, the same holds without the
  condition on it: the call that follows a call returns the same handle, pending or not. The
  recency list is not the subject here.
\<close>

theorem resolved_entry_is_reused:
  "(entriesByHash s (paramHasher cs param) = Some e \<longrightarrow> \<not> isBeingUsed (entries s e) \<longrightarrow>
    compareCallState (paramState_of cs param) (paramState (entries s e)) \<longrightarrow>
    isResolved (entries s e) \<longrightarrow>
      fst (withCache fn cs param s) = Inr (cache (entries s e)) \<and>
      invocations (snd (withCache fn cs param s)) = invocations s \<and>
      entries (snd (withCache fn cs param s)) = entries s \<and>
      entriesByHash (snd (withCache fn cs param s)) = entriesByHash s) \<and>
   (fst (withCache fn1 cs1 param1 t) = Inr h \<longrightarrow>
    t1 = snd (withCache fn1 cs1 param1 t) \<longrightarrow>
    t2 = snd (on_fulfilled cs1 p r t1) \<longrightarrow>
    paramHasher cs1 param2 = paramHasher cs1 param1 \<longrightarrow>
    entriesByHash t2 (paramHasher cs1 param2) = Some e1 \<longrightarrow>
    isResolved (entries t2 e1) \<longrightarrow>
    compareCallState (paramState_of cs1 param2) (paramState (entries t2 e1)) \<longrightarrow>
      fst (withCache fn1 cs1 param2 t2) = Inr h \<and>
      invocations (snd (withCache fn1 cs1 param2 t2)) = invocations t2) \<and>
   (entriesByHash0 s0 (paramHasher0 cs0 param0) = Some e0 \<longrightarrow> \<not> isBeingUsed0 (entries0 s0 e0) \<longrightarrow>
    compareCallState (paramState_of0 cs0 param0) (paramState0 (entries0 s0 e0)) \<longrightarrow>
      fst (withCache0 fn0 cs0 param0 s0) = Inr (cache0 (entries0 s0 e0)) \<and>
      invocations0 (snd (withCache0 fn0 cs0 param0 s0)) = invocations0 s0 \<and>
      entries0 (snd (withCache0 fn0 cs0 param0 s0)) = entries0 s0 \<and>
      entriesByHash0 (snd (withCache0 fn0 cs0 param0 s0)) = entriesByHash0 s0) \<and>
   (fst (withCache0 fn2 cs2 param3 u) = Inr h0 \<longrightarrow>
    u1 = snd (withCache0 fn2 cs2 param3 u) \<longrightarrow>
    paramHasher0 cs2 param4 = paramHasher0 cs2 param3 \<longrightarrow>
    entriesByHash0 u1 (paramHasher0 cs2 param4) = Some e2 \<longrightarrow>
    compareCallState (paramState_of0 cs2 param4) (paramState0 (entries0 u1 e2)) \<longrightarrow>
      fst (withCache0 fn2 cs2 param4 u1) = Inr h0 \<and>
      invocations0 (snd (withCache0 fn2 cs2 param4 u1)) = invocations0 u1)"
proof (intro conjI impI)
  assume a: "fst (withCache fn1 cs1 param1 t) = Inr h" "t1 = snd (withCache fn1 cs1 param1 t)"
    "t2 = snd (on_fulfilled cs1 p r t1)" "paramHasher cs1 param2 = paramHasher cs1 param1"
    "entriesByHash t2 (paramHasher cs1 param2) = Some e1" "isResolved (entries t2 e1)"
    "compareCallState (paramState_of cs1 param2) (paramState (entries t2 e1))"
  have "entriesByHash t1 (paramHasher cs1 param1) = Some e1"
    using a(3,4,5) on_fulfilled_keeps(3) by metis
  then have "cache (entries t1 e1) = h" "\<not> isBeingUsed (entries t1 e1)"
    using call_stores_returned_handle [OF a(1)] a(2) by simp_all
  then have k: "cache (entries t2 e1) = h" "\<not> isBeingUsed (entries t2 e1)"
    by (simp_all add: a(3) on_fulfilled_keeps)
  show "fst (withCache fn1 cs1 param2 t2) = Inr h"
    using a(5,6,7) k by (simp add: withCache_def)
  show "invocations (snd (withCache fn1 cs1 param2 t2)) = invocations t2"
    using a(5,6,7) k by (simp add: withCache_def)
next
  assume b: "fst (withCache0 fn2 cs2 param3 u) = Inr h0" "u1 = snd (withCache0 fn2 cs2 param3 u)"
    "paramHasher0 cs2 param4 = paramHasher0 cs2 param3"
    "entriesByHash0 u1 (paramHasher0 cs2 param4) = Some e2"
    "compareCallState (paramState_of0 cs2 param4) (paramState0 (entries0 u1 e2))"
  have k: "cache0 (entries0 u1 e2) = h0" "\<not> isBeingUsed0 (entries0 u1 e2)"
    using call0_stores_returned_handle [OF b(1)] b(2,3,4) by simp_all
  show "fst (withCache0 fn2 cs2 param4 u1) = Inr h0"
    using b(4,5) k by (simp add: withCache0_def)
  show "invocations0 (snd (withCache0 fn2 cs2 param4 u1)) = invocations0 u1"
    using b(4,5) k by (simp add: withCache0_def)
qed (simp_all add: withCache_def withCache0_def)

text \<open>
  A call for \<open>A\<close>, the fulfilment of its computation, and a second call for \<open>A\<close>; and, in
  the variant without \<open>isResolved\<close>, two calls for \<open>A\<close> in a row.
\<close>

theorem resolved_entry_is_reused_witness:
  "entriesByHash (run returns (settings_max 2) [Call ''A'', Resolve 0 7])
     (paramHasher (settings_max 2) ''A'') = Some 0 \<and>
   \<not> isBeingUsed (entries (run returns (settings_max 2) [Call ''A'', Resolve 0 7]) 0) \<and>
   compareCallState (paramState_of (settings_max 2) ''A'')
     (paramState (entries (run returns (settings_max 2) [Call ''A'', Resolve 0 7]) 0)) \<and>
   isResolved (entries (run returns (settings_max 2) [Call ''A'', Resolve 0 7]) 0) \<and>
   fst (withCache returns (settings_max 2) ''A'' empty_Cache) = Inr (Some 0) \<and>
   run returns (settings_max 2) [Call ''A'', Resolve 0 7]
     = snd (on_fulfilled (settings_max 2) 0 7
              (snd (withCache returns (settings_max 2) ''A'' empty_Cache))) \<and>
   fst (withCache returns (settings_max 2) ''A''
          (run returns (settings_max 2) [Call ''A'', Resolve 0 7])) = Inr (Some 0) \<and>
   invocations (snd (withCache returns (settings_max 2) ''A''
          (run returns (settings_max 2) [Call ''A'', Resolve 0 7]))) = [''A''] \<and>
   fst (withCache0 returns0 (settings0_max 2) ''A'' empty_Cache0) = Inr (Some 0) \<and>
   entriesByHash0 (snd (withCache0 returns0 (settings0_max 2) ''A'' empty_Cache0))
     (paramHasher0 (settings0_max 2) ''A'') = Some 0 \<and>
   \<not> isBeingUsed0 (entries0 (snd (withCache0 returns0 (settings0_max 2) ''A'' empty_Cache0)) 0) \<and>
   compareCallState (paramState_of0 (settings0_max 2) ''A'')
     (paramState0 (entries0 (snd (withCache0 returns0 (settings0_max 2) ''A'' empty_Cache0)) 0)) \<and>
   fst (withCache0 returns0 (settings0_max 2) ''A''
          (snd (withCache0 returns0 (settings0_max 2) ''A'' empty_Cache0))) = Inr (Some 0) \<and>
   invocations0 (snd (withCache0 returns0 (settings0_max 2) ''A''
          (snd (withCache0 returns0 (settings0_max 2) ''A'' empty_Cache0)))) = [''A'']"
  using resolved_entry_is_reused
          [where s = "run returns (settings_max 2) [Call ''A'', Resolve 0 7]"
             and cs = "settings_max 2" and param = "''A''" and e = 0 and fn = returns
             and ?fn1.0 = returns and ?cs1.0 = "settings_max 2" and ?param1.0 = "''A''"
             and t = empty_Cache and h = "Some 0"
             and ?t1.0 = "snd (withCache returns (settings_max 2) ''A'' empty_Cache)"
             and ?t2.0 = "run returns (settings_max 2) [Call ''A'', Resolve 0 7]"
             and p = 0 and r = 7 and ?param2.0 = "''A''" and ?e1.0 = 0
             and ?s0.0 = "snd (withCache0 returns0 (settings0_max 2) ''A'' empty_Cache0)"
             and ?cs0.0 = "settings0_max 2" and ?param0.0 = "''A''" and ?e0.0 = 0
             and ?fn0.0 = returns0
             and ?fn2.0 = returns0 and ?cs2.0 = "settings0_max 2" and ?param3.0 = "''A''"
             and u = empty_Cache0 and ?h0.0 = "Some 0"
             and ?u1.0 = "snd (withCache0 returns0 (settings0_max 2) ''A'' empty_Cache0)"
             and ?param4.0 = "''A''" and ?e2.0 = 0]
  by (simp add: cache_defs cache0_defs list_defs Let_def)

text \<open>
  C7: a call whose fingerprint is in the table with an entry that is not in use and whose
  state differs from the stored state under \<open>===\<close> invokes the wrapped function again; when
  that invocation returns a promise, the stored state is the new state, the new handle is in
  the entry in place of the old one, and it is the handle returned. Both source files that
  define \<open>withCache\<close> do so.
\<close>

theorem changed_state_reinvokes:
  "(entriesByHash s (paramHasher cs param) = Some e \<longrightarrow> \<not> isBeingUsed (entries s e) \<longrightarrow>
    \<not> compareCallState (paramState_of cs param) (paramState (entries s e)) \<longrightarrow>
    fn param (length (invocations s)) = ReturnsPromise \<longrightarrow>
      fst (withCache fn cs param s) = Inr (Some (next_promise s)) \<and>
      paramState (entries (snd (withCache fn cs param s)) e) = paramState_of cs param \<and>
      cache (entries (snd (withCache fn cs param s)) e) = Some (next_promise s) \<and>
      \<not> isBeingUsed (entries (snd (withCache fn cs param s)) e) \<and>
      invocations (snd (withCache fn cs param s)) = invocations s @ [param]) \<and>
   (entriesByHash0 s0 (paramHasher0 cs0 param0) = Some e0 \<longrightarrow> \<not> isBeingUsed0 (entries0 s0 e0) \<longrightarrow>
    \<not> compareCallState (paramState_of0 cs0 param0) (paramState0 (entries0 s0 e0)) \<longrightarrow>
    fn0 param0 (length (invocations0 s0)) = Inr p0 \<longrightarrow>
      fst (withCache0 fn0 cs0 param0 s0) = Inr (Some p0) \<and>
      paramState0 (entries0 (snd (withCache0 fn0 cs0 param0 s0)) e0) = paramState_of0 cs0 param0 \<and>
      cache0 (entries0 (snd (withCache0 fn0 cs0 param0 s0)) e0) = Some p0 \<and>
      \<not> isBeingUsed0 (entries0 (snd (withCache0 fn0 cs0 param0 s0)) e0) \<and>
      invocations0 (snd (withCache0 fn0 cs0 param0 s0)) = invocations0 s0 @ [param0])"
  by (simp add: withCache_def withCache0_def invoke_def try_fn0_def upd_entry_def upd_entry0_def
      Let_def)

text \<open>A call for key \<open>A\<close> at version \<open>1\<close>, then one at version \<open>2\<close>.\<close>

theorem changed_state_reinvokes_witness:
  "entriesByHash (run returns (versioned 2) [Call (''A'', 1), Resolve 0 7])
     (paramHasher (versioned 2) (''A'', 2)) = Some 0 \<and>
   \<not> isBeingUsed (entries (run returns (versioned 2) [Call (''A'', 1), Resolve 0 7]) 0) \<and>
   \<not> compareCallState (paramState_of (versioned 2) (''A'', 2))
       (paramState (entries (run returns (versioned 2) [Call (''A'', 1), Resolve 0 7]) 0)) \<and>
   returns (''A'', 2 :: nat)
     (length (invocations (run returns (versioned 2) [Call (''A'', 1), Resolve 0 7])))
     = ReturnsPromise \<and>
   fst (withCache returns (versioned 2) (''A'', 2)
          (run returns (versioned 2) [Call (''A'', 1), Resolve 0 7])) = Inr (Some 1) \<and>
   invocations (snd (withCache returns (versioned 2) (''A'', 2)
          (run returns (versioned 2) [Call (''A'', 1), Resolve 0 7]))) = [(''A'', 1), (''A'', 2)] \<and>
   entriesByHash0 (snd (withCache0 returns0 (versioned0 2) (''A'', 1) empty_Cache0))
     (paramHasher0 (versioned0 2) (''A'', 2)) = Some 0 \<and>
   \<not> isBeingUsed0 (entries0 (snd (withCache0 returns0 (versioned0 2) (''A'', 1) empty_Cache0)) 0) \<and>
   \<not> compareCallState (paramState_of0 (versioned0 2) (''A'', 2))
       (paramState0 (entries0 (snd (withCache0 returns0 (versioned0 2) (''A'', 1) empty_Cache0)) 0)) \<and>
   returns0 (''A'', 2 :: nat)
     (length (invocations0 (snd (withCache0 returns0 (versioned0 2) (''A'', 1) empty_Cache0))))
     = (Inr 1 :: unit + promise) \<and>
   fst (withCache0 returns0 (versioned0 2) (''A'', 2)
          (snd (withCache0 returns0 (versioned0 2) (''A'', 1) empty_Cache0))) = Inr (Some 1) \<and>
   invocations0 (snd (withCache0 returns0 (versioned0 2) (''A'', 2)
          (snd (withCache0 returns0 (versioned0 2) (''A'', 1) empty_Cache0))))
     = [(''A'', 1), (''A'', 2)]"
  using changed_state_reinvokes
          [of "run returns (versioned 2) [Call (''A'', 1), Resolve 0 7]" "versioned 2" "(''A'', 2)" 0
              returns "snd (withCache0 returns0 (versioned0 2) (''A'', 1) empty_Cache0)"
              "versioned0 2" "(''A'', 2)" 0 returns0 1]
  by (simp add: cache_defs cache0_defs list_defs Let_def)

section \<open>Completions\<close>

text \<open>
  C10: in src/src/Cache.ts, when the promise \<open>p\<close> a caller holds is still pending and its
  entry's \<open>cache\<close> is no longer \<open>p\<close> (an invalidation has replaced it), the fulfilment of the
  underlying computation with a value \<open>v\<close> fulfils \<open>p\<close> with \<open>undefined\<close>, not with \<open>v\<close>:
  the \<open>then\<close> callback returns nothing outside its guard. Nothing but the consumed closure
  changes.
\<close>

theorem superseded_promise_fulfils_undefined:
  "callbacks s p = Some (e, param) \<Longrightarrow> cache (entries s e) \<noteq> Some p \<Longrightarrow>
   on_fulfilled cs p v s = (Some Undefined, s\<lparr>callbacks := (callbacks s)(p := None)\<rparr>)"
  by (simp add: on_fulfilled_def)

text \<open>
  Two calls for \<open>A\<close> with nothing settled in between: the second one invokes again and
  replaces promise \<open>0\<close> by promise \<open>1\<close>; then the first computation is fulfilled with \<open>7\<close>.
\<close>

theorem superseded_promise_fulfils_undefined_witness:
  "callbacks (calls 2 [''A'', ''A'']) 0 = Some (0, ''A'') \<and>
   cache (entries (calls 2 [''A'', ''A'']) 0) \<noteq> Some 0 \<and>
   fst (on_fulfilled (settings_max 2) 0 7 (calls 2 [''A'', ''A''])) = Some Undefined"
  using superseded_promise_fulfils_undefined
          [of "calls 2 [''A'', ''A'']" 0 0 "''A''" "settings_max 2" 7]
  by (simp add: cache_defs list_defs Let_def)

text \<open>
  What \<open>detach\<close> achieves in every state, after a rejection of the current promise: the
  promise rejects with the same error, the table has nothing under the entry's fingerprint,
  the entry has left \<open>_lookup\<close>, and a call with that fingerprint made next invokes the
  wrapped function again. Whether the cells of the list still lead to the entry is another
  matter.
\<close>

lemma rejection_clears_table_and_lookup:
  "callbacks s p = Some (e, param) \<Longrightarrow> cache (entries s e) = Some p \<Longrightarrow>
   paramHasher cs param' = paramHash (entries s e) \<Longrightarrow>
   fst (on_rejected p err s) = Some err \<and>
   entriesByHash (snd (on_rejected p err s)) (paramHash (entries s e)) = None \<and>
   priv_lookup (entriesByAccess (snd (on_rejected p err s))) e = None \<and>
   invocations (snd (withCache fn cs param' (snd (on_rejected p err s))))
     = invocations s @ [param']"
proof -
  assume cb: "callbacks s p = Some (e, param)" and cur: "cache (entries s e) = Some p"
    and h: "paramHasher cs param' = paramHash (entries s e)"
  let ?s0 = "s\<lparr>callbacks := (callbacks s)(p := None)\<rparr>"
  have r: "on_rejected p err s = (Some err, detach e ?s0)"
    using cb cur by (simp add: on_rejected_def)
  have t: "entriesByHash (detach e ?s0) (paramHasher cs param') = None"
    using detach_fields(1) [of e ?s0] h by simp
  show ?thesis
    using fresh_call_invokes [OF t, of fn] detach_fields [of e ?s0] h
    by (simp add: r)
qed

text \<open>
  The same after a fulfilment that \<open>shouldCache\<close> turns down; and a fulfilment of a promise
  that is no longer the entry's touches neither the entries nor the table nor the list.
\<close>

lemma uncacheable_result_clears_table_and_lookup:
  "(callbacks s p = Some (e, param) \<longrightarrow> cache (entries s e) = Some p \<longrightarrow>
    shouldCache cs = Some sc \<longrightarrow> \<not> sc result param \<longrightarrow>
    paramHasher cs param' = paramHash (entries s e) \<longrightarrow>
      fst (on_fulfilled cs p result s) = Some (Value result) \<and>
      isResolved (entries (snd (on_fulfilled cs p result s)) e) \<and>
      entriesByHash (snd (on_fulfilled cs p result s)) (paramHash (entries s e)) = None \<and>
      priv_lookup (entriesByAccess (snd (on_fulfilled cs p result s))) e = None \<and>
      invocations (snd (withCache fn cs param' (snd (on_fulfilled cs p result s))))
        = invocations s @ [param']) \<and>
   (callbacks s2 p2 = Some (e2, param2) \<longrightarrow> cache (entries s2 e2) \<noteq> Some p2 \<longrightarrow>
      entries (snd (on_fulfilled cs2 p2 result2 s2)) = entries s2 \<and>
      entriesByHash (snd (on_fulfilled cs2 p2 result2 s2)) = entriesByHash s2 \<and>
      entriesByAccess (snd (on_fulfilled cs2 p2 result2 s2)) = entriesByAccess s2)"
proof (intro conjI impI)
  assume cb: "callbacks s p = Some (e, param)" and cur: "cache (entries s e) = Some p"
    and sc: "shouldCache cs = Some sc" "\<not> sc result param"
    and h: "paramHasher cs param' = paramHash (entries s e)"
  let ?s1 = "upd_entry e (\<lambda>x. x\<lparr>isResolved := True\<rparr>) (s\<lparr>callbacks := (callbacks s)(p := None)\<rparr>)"
  have r: "on_fulfilled cs p result s = (Some (Value result), detach e ?s1)"
    using cb cur sc by (simp add: on_fulfilled_def Let_def)
  have ph: "paramHash (entries ?s1 e) = paramHash (entries s e)"
    by (simp add: upd_entry_def)
  have t: "entriesByHash (detach e ?s1) (paramHasher cs param') = None"
    using detach_fields(1) [of e ?s1] h ph by simp
  show "fst (on_fulfilled cs p result s) = Some (Value result)" by (simp add: r)
  show "isResolved (entries (snd (on_fulfilled cs p result s)) e)"
    by (simp add: r detach_fields upd_entry_def)
  show "entriesByHash (snd (on_fulfilled cs p result s)) (paramHash (entries s e)) = None"
    using t h by (simp add: r)
  show "priv_lookup (entriesByAccess (snd (on_fulfilled cs p result s))) e = None"
    by (simp add: r detach_fields)
  show "invocations (snd (withCache fn cs param' (snd (on_fulfilled cs p result s))))
        = invocations s @ [param']"
    using fresh_call_invokes [OF t, of fn] by (simp add: r detach_fields upd_entry_def)
next
  assume "callbacks s2 p2 = Some (e2, param2)" "cache (entries s2 e2) \<noteq> Some p2"
  then have r: "on_fulfilled cs2 p2 result2 s2
                  = (Some Undefined, s2\<lparr>callbacks := (callbacks s2)(p2 := None)\<rparr>)"
    by (simp add: on_fulfilled_def)
  show "entries (snd (on_fulfilled cs2 p2 result2 s2)) = entries s2" by (simp add: r)
  show "entriesByHash (snd (on_fulfilled cs2 p2 result2 s2)) = entriesByHash s2" by (simp add: r)
  show "entriesByAccess (snd (on_fulfilled cs2 p2 result2 s2)) = entriesByAccess s2"
    by (simp add: r)
qed

section \<open>Eviction\<close>












subsection \<open>Consistent chains\<close>

















subsection \<open>A call that creates an entry\<close>







section \<open>The relinking defect\<close>

text \<open>
  C2 asks that \<open>insertAtHead\<close> of an item that is already linked leaves a consistent chain
  with the item at the head. Two objects \<open>0\<close> and \<open>1\<close>: after \<open>insertAtHead(0)\<close> and
  \<open>insertAtHead(1)\<close> the chain reads \<open>1, 0\<close> from the head and \<open>0, 1\<close> from the tail. After
  \<open>insertAtHead(0)\<close> once more the length is \<open>2\<close> and the chain read from the tail is
  \<open>1, 0\<close>, but read from the head it is \<open>0\<close> alone: the head cell's \<open>further\<close> is \<open>null\<close>,
  where the branch of a new item writes \<open>further: head\<close>.
\<close>

theorem insertAtHead_relink_loses_further:
  "from_head (insertAtHead 1 (insertAtHead 0 empty_LinkedList)) = [1, 0] \<and>
   from_tail (insertAtHead 1 (insertAtHead 0 empty_LinkedList)) = [0, 1] \<and>
   get_length (insertAtHead 0 (insertAtHead 1 (insertAtHead 0 empty_LinkedList))) = 2 \<and>
   from_head (insertAtHead 0 (insertAtHead 1 (insertAtHead 0 empty_LinkedList))) = [0] \<and>
   from_tail (insertAtHead 0 (insertAtHead 1 (insertAtHead 0 empty_LinkedList))) = [1, 0]"
  by (simp add: list_defs Let_def eval_nat_numeral)

text \<open>
  C1 asks that an eviction never removes an entry before one accessed less recently. With
  \<open>maxEntries = 2\<close> and the calls \<open>A, B, B, B\<close>, both entries are tracked and \<open>B\<close> is the
  one accessed last, yet the list's tail is the entry of \<open>B\<close> (object \<open>1\<close>). The next call,
  for \<open>C\<close>, evicts \<open>B\<close> and keeps \<open>A\<close>.
\<close>

theorem eviction_removes_more_recent_entry:
  "entriesByHash (calls 2 [''A'', ''B'', ''B'', ''B'']) ''A'' = Some 0 \<and>
   entriesByHash (calls 2 [''A'', ''B'', ''B'', ''B'']) ''B'' = Some 1 \<and>
   invocations (calls 2 [''A'', ''B'', ''B'', ''B'']) = [''A'', ''B'', ''B'', ''B''] \<and>
   get_tail (entriesByAccess (calls 2 [''A'', ''B'', ''B'', ''B''])) = Some 1 \<and>
   entriesByHash (calls 2 [''A'', ''B'', ''B'', ''B'', ''C'']) ''A'' = Some 0 \<and>
   entriesByHash (calls 2 [''A'', ''B'', ''B'', ''B'', ''C'']) ''B'' = None \<and>
   entriesByHash (calls 2 [''A'', ''B'', ''B'', ''B'', ''C'']) ''C'' = Some 2"
  by (simp add: cache_defs list_defs Let_def)

text \<open>
  C4 asks that the table holds at most \<open>maxEntries\<close> entries after every call. With
  \<open>maxEntries = 2\<close> and the calls \<open>A, B, B, B, C, A, D\<close> it holds three: the list's tail is
  then a cell that has left the list, so the eviction of the last call removes nothing.
\<close>

theorem tracked_entries_exceed_maxEntries:
  "maxEntries (settings_max 2) = 2 \<and>
   entriesByHash (calls 2 [''A'', ''B'', ''B'', ''B'', ''C'', ''A'', ''D'']) ''A'' = Some 0 \<and>
   entriesByHash (calls 2 [''A'', ''B'', ''B'', ''B'', ''C'', ''A'', ''D'']) ''C'' = Some 2 \<and>
   entriesByHash (calls 2 [''A'', ''B'', ''B'', ''B'', ''C'', ''A'', ''D'']) ''D'' = Some 3 \<and>
   card (dom (entriesByHash (calls 2 [''A'', ''B'', ''B'', ''B'', ''C'', ''A'', ''D'']))) = 3 \<and>
   get_length (entriesByAccess (calls 2 [''A'', ''B'', ''B'', ''B'', ''C'', ''A'', ''D''])) = 3"
  by (simp add: cache_defs list_defs Let_def)

text \<open>
  C6 asks that a rejection of the entry's current promise removes the entry from the table
  and from the list. With \<open>maxEntries = 3\<close> and the calls \<open>A, B, C, A, A, C\<close>, promise \<open>4\<close>
  is the current one of the entry of \<open>A\<close> (object \<open>0\<close>). When it rejects, the error is
  passed on and the table loses \<open>A\<close>, but the list's tail is still the entry of \<open>A\<close>: the
  second relinking of \<open>A\<close> has made its cell the tail, the relinking of \<open>C\<close> has given that
  cell a \<open>further\<close>, and so \<open>_remove\<close> leaves \<open>_tail\<close> alone. Two calls later, for \<open>D\<close> and
  \<open>E\<close>, the eviction finds that tail, removes nothing, and the table holds four entries.
\<close>

theorem rejected_entry_stays_tail:
  "callbacks (calls 3 [''A'', ''B'', ''C'', ''A'', ''A'', ''C'']) 4 = Some (0, ''A'') \<and>
   entriesByHash (calls 3 [''A'', ''B'', ''C'', ''A'', ''A'', ''C'']) ''A'' = Some 0 \<and>
   cache (entries (calls 3 [''A'', ''B'', ''C'', ''A'', ''A'', ''C'']) 0) = Some 4 \<and>
   fst (on_rejected 4 () (calls 3 [''A'', ''B'', ''C'', ''A'', ''A'', ''C''])) = Some () \<and>
   entriesByHash
     (snd (on_rejected 4 () (calls 3 [''A'', ''B'', ''C'', ''A'', ''A'', ''C''])))
     ''A'' = None \<and>
   get_tail (entriesByAccess
     (snd (on_rejected 4 () (calls 3 [''A'', ''B'', ''C'', ''A'', ''A'', ''C'']))))
     = Some 0 \<and>
   card (dom (entriesByHash (run returns (settings_max 3)
     [Call ''A'', Call ''B'', Call ''C'', Call ''A'', Call ''A'', Call ''C'', Reject 4 (),
      Call ''D'', Call ''E'']))) = 4"
  by (simp add: cache_defs list_defs Let_def)

text \<open>
  C8 asks that a fulfilment which \<open>shouldCache\<close> turns down removes the entry from the table
  and from the list. The same calls with a \<open>shouldCache\<close> that is always false, and promise
  \<open>4\<close> fulfilled with \<open>7\<close>: the table loses \<open>A\<close>, but the list's tail is still the entry of
  \<open>A\<close>, and after the calls for \<open>D\<close> and \<open>E\<close> the table holds four entries.
\<close>

theorem uncacheable_entry_stays_tail:
  "callbacks (uncached_calls 3 [''A'', ''B'', ''C'', ''A'', ''A'', ''C'']) 4 = Some (0, ''A'') \<and>
   entriesByHash (uncached_calls 3 [''A'', ''B'', ''C'', ''A'', ''A'', ''C'']) ''A'' = Some 0 \<and>
   cache (entries (uncached_calls 3 [''A'', ''B'', ''C'', ''A'', ''A'', ''C'']) 0) = Some 4 \<and>
   fst (on_fulfilled (never_cache 3) 4 7
          (uncached_calls 3 [''A'', ''B'', ''C'', ''A'', ''A'', ''C''])) = Some (Value 7) \<and>
   entriesByHash (snd (on_fulfilled (never_cache 3) 4 7
          (uncached_calls 3 [''A'', ''B'', ''C'', ''A'', ''A'', ''C'']))) ''A'' = None \<and>
   get_tail (entriesByAccess (snd (on_fulfilled (never_cache 3) 4 7
          (uncached_calls 3 [''A'', ''B'', ''C'', ''A'', ''A'', ''C''])))) = Some 0 \<and>
   card (dom (entriesByHash (run returns (never_cache 3)
     [Call ''A'', Call ''B'', Call ''C'', Call ''A'', Call ''A'', Call ''C'', Resolve 4 7,
      Call ''D'', Call ''E'']))) = 4"
  by (simp add: cache_defs list_defs Let_def)

end
